theory Spec2Isabelle
  imports Complex_Main "HOL-Library.Sublist" "HOL-Library.AList"
begin

section \<open>The Open-Meteo historical weather client (src/src/open_meteo_api.py)\<close>

subsection \<open>Variable catalogs\<close>

text \<open>
  The class constants \<open>HOURLY_VARIABLES\<close> and \<open>DAILY_VARIABLES\<close> are Python set
  literals of strings; they are transcribed name by name, in source order.
\<close>

definition HOURLY_VARIABLES :: "string set" where
  "HOURLY_VARIABLES = {
     ''temperature_2m'', ''relative_humidity_2m'', ''dew_point_2m'', ''apparent_temperature'',
     ''pressure_msl'', ''surface_pressure'', ''precipitation'', ''rain'', ''snowfall'',
     ''cloud_cover'', ''cloud_cover_low'', ''cloud_cover_mid'', ''cloud_cover_high'',
     ''shortwave_radiation'', ''direct_radiation'', ''direct_normal_irradiance'',
     ''diffuse_radiation'', ''global_tilted_irradiance'', ''sunshine_duration'',
     ''wind_speed_10m'', ''wind_speed_100m'', ''wind_direction_10m'', ''wind_direction_100m'',
     ''wind_gusts_10m'', ''et0_fao_evapotranspiration'', ''weather_code'', ''snow_depth'',
     ''vapour_pressure_deficit'', ''soil_temperature_0_to_7cm'', ''soil_temperature_7_to_28cm'',
     ''soil_temperature_28_to_100cm'', ''soil_temperature_100_to_255cm'',
     ''soil_moisture_0_to_7cm'', ''soil_moisture_7_to_28cm'',
     ''soil_moisture_28_to_100cm'', ''soil_moisture_100_to_255cm''}"

definition DAILY_VARIABLES :: "string set" where
  "DAILY_VARIABLES = {
     ''weather_code'', ''temperature_2m_max'', ''temperature_2m_min'',
     ''apparent_temperature_max'', ''apparent_temperature_min'',
     ''precipitation_sum'', ''rain_sum'', ''snowfall_sum'', ''precipitation_hours'',
     ''sunrise'', ''sunset'', ''sunshine_duration'', ''daylight_duration'',
     ''wind_speed_10m_max'', ''wind_gusts_10m_max'', ''wind_direction_10m_dominant'',
     ''shortwave_radiation_sum'', ''et0_fao_evapotranspiration''}"

subsection \<open>Errors and the request object\<close>

text \<open>
  Every exception the class can raise is a value. \<open>ValueError\<close> carries the message of
  the \<open>raise\<close> statement; \<open>KeyError\<close> carries the missing key; \<open>DateParseError\<close>
  stands for a failure of the timestamp parser of the table library.
\<close>

datatype error = ValueError string | KeyError string | DateParseError

text \<open>
  The instance attributes set by \<open>__init__\<close>. \<open>model\<close> and \<open>elevation\<close> default to
  \<open>None\<close> in the source, hence the option types.
\<close>

record api =
  latitude :: real
  longitude :: real
  variables :: "string list"
  start_date :: string
  end_date :: string
  timezone :: string
  temperature_unit :: string
  wind_speed_unit :: string
  precipitation_unit :: string
  timeformat :: string
  model :: "string option"
  elevation :: "real option"
  cell_selection :: string
  hourly_vars :: "string list"
  daily_vars :: "string list"

text \<open>
  The comprehension \<open>[v for v in variables if v in CATALOG]\<close>, as the loop it is:
  the list is walked front to back and an element is kept when it is in the catalog.
\<close>

fun select_vars :: "string set \<Rightarrow> string list \<Rightarrow> string list" where
  "select_vars catalog [] = []"
| "select_vars catalog (v # vs) =
     (if v \<in> catalog then v # select_vars catalog vs else select_vars catalog vs)"

definition no_valid_variables :: error where
  "no_valid_variables = ValueError ''No valid variables found in hourly or daily categories.''"

text \<open>
  \<open>__init__\<close>: the thirteen arguments in source order. The two variable lists are computed
  and the constructor raises when both are empty (an empty list is falsy).
\<close>

definition init ::
  "real \<Rightarrow> real \<Rightarrow> string list \<Rightarrow> string \<Rightarrow> string \<Rightarrow> string \<Rightarrow> string \<Rightarrow> string \<Rightarrow> string
     \<Rightarrow> string \<Rightarrow> string option \<Rightarrow> real option \<Rightarrow> string \<Rightarrow> error + api" where
  "init lat lon vars sd ed tz tu wu pu tf mdl elev cs =
     (let hv = select_vars HOURLY_VARIABLES vars;
          dv = select_vars DAILY_VARIABLES vars
      in if hv = [] \<and> dv = [] then Inl no_valid_variables
         else Inr \<lparr> latitude = lat, longitude = lon, variables = vars,
                    start_date = sd, end_date = ed, timezone = tz,
                    temperature_unit = tu, wind_speed_unit = wu,
                    precipitation_unit = pu, timeformat = tf,
                    model = mdl, elevation = elev, cell_selection = cs,
                    hourly_vars = hv, daily_vars = dv \<rparr>)"

text \<open>The constructor called with the keyword defaults of the source.\<close>

definition init_default :: "real \<Rightarrow> real \<Rightarrow> string list \<Rightarrow> string \<Rightarrow> string \<Rightarrow> error + api" where
  "init_default lat lon vars sd ed =
     init lat lon vars sd ed ''auto'' ''celsius'' ''kmh'' ''mm'' ''iso8601'' None None ''land''"

subsection \<open>Query parameters\<close>

text \<open>
  \<open>sep.join(xs)\<close> of Python: the elements with \<open>sep\<close> between neighbours, nothing
  before the first or after the last.
\<close>

fun join :: "string \<Rightarrow> string list \<Rightarrow> string" where
  "join sep [] = []"
| "join sep [x] = x"
| "join sep (x # y # ys) = x @ sep @ join sep (y # ys)"

text \<open>
  A parameter value is a number or a string. The \<open>params\<close> dict is an association list
  in insertion order; \<open>params[k] = v\<close> is \<^const>\<open>AList.update\<close>, which replaces the
  value of a key already there and appends a new key at the end, as a Python dict does.
\<close>

datatype pval = PFloat real | PStr string

type_synonym params = "(string \<times> pval) list"

text \<open>The keys of a dict.\<close>

definition keys :: "('k \<times> 'v) list \<Rightarrow> 'k set" where
  "keys d = fst ` set d"

text \<open>
  \<open>_build_params\<close>: the dict literal of ten entries, then the four guarded
  assignments. \<open>if self.hourly_vars\<close> and \<open>if self.daily_vars\<close> test a list for
  non-emptiness; \<open>if self.model\<close> is a truth test of \<open>None\<close> or a string, false for
  \<open>None\<close> and for the empty string; \<open>if self.elevation is not None\<close> is an identity test.
\<close>

definition build_params :: "api \<Rightarrow> params" where
  "build_params self =
     (let params = [
            (''latitude'', PFloat (latitude self)),
            (''longitude'', PFloat (longitude self)),
            (''start_date'', PStr (start_date self)),
            (''end_date'', PStr (end_date self)),
            (''timezone'', PStr (timezone self)),
            (''temperature_unit'', PStr (temperature_unit self)),
            (''wind_speed_unit'', PStr (wind_speed_unit self)),
            (''precipitation_unit'', PStr (precipitation_unit self)),
            (''timeformat'', PStr (timeformat self)),
            (''cell_selection'', PStr (cell_selection self))];
          params = (if hourly_vars self \<noteq> []
                    then AList.update ''hourly'' (PStr (join '','' (hourly_vars self))) params
                    else params);
          params = (if daily_vars self \<noteq> []
                    then AList.update ''daily'' (PStr (join '','' (daily_vars self))) params
                    else params);
          params = (case model self of
                      None \<Rightarrow> params
                    | Some m \<Rightarrow> if m \<noteq> [] then AList.update ''model'' (PStr m) params
                               else params);
          params = (case elevation self of
                      None \<Rightarrow> params
                    | Some e \<Rightarrow> AList.update ''elevation'' (PFloat e) params)
      in params)"

subsection \<open>Fetching and shaping the response\<close>

text \<open>
  A JSON array element is a number, a string or \<open>null\<close>. A section of the response
  (\<open>data["hourly"]\<close>, \<open>data["daily"]\<close>) maps field names to arrays, in the order of the
  document; the payload maps section names to sections.
\<close>

datatype cell = Num real | Str string | Null

type_synonym field_arrays = "(string \<times> cell list) list"

type_synonym payload = "(string \<times> field_arrays) list"

definition BASE_URL :: string where
  "BASE_URL = ''https://archive-api.open-meteo.com/v1/archive''"

text \<open>
  The network is a parameter: \<open>http_get url params\<close> is what
  \<open>requests.get(url, params=params)\<close>, \<open>raise_for_status()\<close> and \<open>json()\<close> yield
  together, \<open>Inl\<close> a \<open>RequestException\<close> with its message, \<open>Inr\<close> the decoded body.
\<close>

type_synonym transport = "string \<Rightarrow> params \<Rightarrow> string + payload"

text \<open>
  \<open>fetch\<close>: the exception is caught, printed and turned into \<open>None\<close>; the printing is
  not modelled.
\<close>

definition fetch :: "transport \<Rightarrow> api \<Rightarrow> payload option" where
  "fetch http_get self =
     (let params = build_params self
      in case http_get BASE_URL params of
           Inl e \<Rightarrow> None
         | Inr body \<Rightarrow> Some body)"

text \<open>
  A table after \<open>set_index("time")\<close>: the row labels and the remaining columns.
\<close>

record 'ts frame =
  index :: "'ts list"
  columns :: "(string \<times> cell list) list"

text \<open>
  \<open>pd.DataFrame(d)\<close> on a dict of arrays: the arrays must all have one length,
  otherwise the library raises a \<open>ValueError\<close> of its own.
\<close>

definition DataFrame :: "field_arrays \<Rightarrow> error + field_arrays" where
  "DataFrame sec =
     (if length (remdups (map (\<lambda>c. length (snd c)) sec)) \<le> 1 then Inr sec
      else Inl (ValueError ''All arrays must be of the same length''))"

text \<open>
  The four statements the source runs on a section. \<open>pd.to_datetime\<close> is a parameter,
  \<open>None\<close> when the library rejects the column. \<open>df["time"]\<close> raises \<open>KeyError\<close> when
  the section has no such field. \<open>set_index\<close> moves the parsed column out of the
  columns and makes it the index.
\<close>

definition section_frame :: "(cell list \<Rightarrow> 'ts list option) \<Rightarrow> field_arrays \<Rightarrow> error + 'ts frame" where
  "section_frame to_datetime sec =
     (case DataFrame sec of
        Inl e \<Rightarrow> Inl e
      | Inr df \<Rightarrow>
          (case map_of df ''time'' of
             None \<Rightarrow> Inl (KeyError ''time'')
           | Some col \<Rightarrow>
               (case to_datetime col of
                  None \<Rightarrow> Inl DateParseError
                | Some ts \<Rightarrow>
                    Inr \<lparr> index = ts, columns = filter (\<lambda>c. fst c \<noteq> ''time'') df \<rparr>)))"

text \<open>
  \<open>if key in data: ... dfs[key] = df\<close>, for one key.
\<close>

definition add_frame ::
  "(cell list \<Rightarrow> 'ts list option) \<Rightarrow> string \<Rightarrow> payload \<Rightarrow> (string \<times> 'ts frame) list
     \<Rightarrow> error + (string \<times> 'ts frame) list" where
  "add_frame to_datetime key data dfs =
     (case map_of data key of
        None \<Rightarrow> Inr dfs
      | Some sec \<Rightarrow>
          (case section_frame to_datetime sec of
             Inl e \<Rightarrow> Inl e
           | Inr df \<Rightarrow> Inr (AList.update key df dfs)))"

text \<open>What \<open>to_dataframe\<close> returns: one table, or the dict \<open>dfs\<close> itself.\<close>

datatype 'ts tables = Single "'ts frame" | Dict "(string \<times> 'ts frame) list"

definition no_data_fetched :: error where
  "no_data_fetched = ValueError ''No data fetched from API.''"

definition no_data_found :: error where
  "no_data_found = ValueError ''No 'hourly' or 'daily' data found in API response.''"

text \<open>
  \<open>to_dataframe\<close>. The last line of the source indexes \<open>dfs\<close> with the literal key
  \<open>"hourly"\<close> whenever \<open>dfs\<close> has one entry; a dict lookup of a missing key raises
  \<open>KeyError\<close>.
\<close>

definition to_dataframe ::
  "transport \<Rightarrow> (cell list \<Rightarrow> 'ts list option) \<Rightarrow> api \<Rightarrow> error + 'ts tables" where
  "to_dataframe http_get to_datetime self =
     (case fetch http_get self of
        None \<Rightarrow> Inl no_data_fetched
      | Some data \<Rightarrow>
          (case add_frame to_datetime ''hourly'' data [] of
             Inl e \<Rightarrow> Inl e
           | Inr dfs1 \<Rightarrow>
               (case add_frame to_datetime ''daily'' data dfs1 of
                  Inl e \<Rightarrow> Inl e
                | Inr dfs \<Rightarrow>
                    if dfs = [] then Inl no_data_found
                    else if length dfs = 1
                         then (case map_of dfs ''hourly'' of
                                 None \<Rightarrow> Inl (KeyError ''hourly'')
                               | Some df \<Rightarrow> Inr (Single df))
                         else Inr (Dict dfs))))"

text \<open>
  The two errors that \<open>to_dataframe\<close> raises itself, as opposed to the ones that
  come out of the table library or of the final dict lookup.
\<close>

definition DataUnavailableError :: "error \<Rightarrow> bool" where
  "DataUnavailableError e = (e = no_data_fetched \<or> e = no_data_found)"

definition ConfigurationError :: "error \<Rightarrow> bool" where
  "ConfigurationError e = (e = no_valid_variables)"

subsection \<open>An ISO-8601 instance of the timestamp parser\<close>

text \<open>
  With \<open>timeformat = "iso8601"\<close> the archive sends hourly times as
  \<open>YYYY-MM-DDTHH:MM\<close> and daily times as \<open>YYYY-MM-DD\<close>. The parser below reads
  exactly these two shapes into calendar fields and is used where a concrete
  \<open>to_datetime\<close> is needed; it is \<open>None\<close> on every other column.
\<close>

record timestamp =
  ts_year :: nat
  ts_month :: nat
  ts_day :: nat
  ts_hour :: nat
  ts_minute :: nat

definition digit :: "char \<Rightarrow> nat option" where
  "digit c =
     (let n = (of_char c :: nat)
      in if 48 \<le> n \<and> n \<le> 57 then Some (n - 48) else None)"

fun number_from :: "nat \<Rightarrow> string \<Rightarrow> nat option" where
  "number_from acc [] = Some acc"
| "number_from acc (c # cs) =
     (case digit c of
        None \<Rightarrow> None
      | Some d \<Rightarrow> number_from (10 * acc + d) cs)"

definition leap_year :: "nat \<Rightarrow> bool" where
  "leap_year y =
     (if y mod 400 = 0 then True else if y mod 100 = 0 then False else y mod 4 = 0)"

definition days_in_month :: "nat \<Rightarrow> nat \<Rightarrow> nat" where
  "days_in_month y m =
     (if m = 2 then (if leap_year y then 29 else 28)
      else if m = 4 \<or> m = 6 \<or> m = 9 \<or> m = 11 then 30
      else 31)"

definition parse_date :: "string \<Rightarrow> (nat \<times> nat \<times> nat) option" where
  "parse_date s =
     (if length s = 10 \<and> s ! 4 = CHR ''-'' \<and> s ! 7 = CHR ''-''
      then (case (number_from 0 (take 4 s), number_from 0 (take 2 (drop 5 s)),
                  number_from 0 (drop 8 s)) of
              (Some y, Some m, Some d) \<Rightarrow>
                if 1 \<le> m \<and> m \<le> 12 \<and> 1 \<le> d \<and> d \<le> days_in_month y m
                then Some (y, m, d) else None
            | _ \<Rightarrow> None)
      else None)"

definition parse_clock :: "string \<Rightarrow> (nat \<times> nat) option" where
  "parse_clock s =
     (if length s = 5 \<and> s ! 2 = CHR '':''
      then (case (number_from 0 (take 2 s), number_from 0 (drop 3 s)) of
              (Some h, Some mi) \<Rightarrow> if h < 24 \<and> mi < 60 then Some (h, mi) else None
            | _ \<Rightarrow> None)
      else None)"

definition parse_iso8601 :: "string \<Rightarrow> timestamp option" where
  "parse_iso8601 s =
     (case parse_date (take 10 s) of
        None \<Rightarrow> None
      | Some (y, m, d) \<Rightarrow>
          if length s = 10
          then Some \<lparr> ts_year = y, ts_month = m, ts_day = d, ts_hour = 0, ts_minute = 0 \<rparr>
          else if length s = 16 \<and> s ! 10 = CHR ''T''
          then (case parse_clock (drop 11 s) of
                  None \<Rightarrow> None
                | Some (h, mi) \<Rightarrow>
                    Some \<lparr> ts_year = y, ts_month = m, ts_day = d,
                           ts_hour = h, ts_minute = mi \<rparr>)
          else None)"

fun to_datetime_iso8601 :: "cell list \<Rightarrow> timestamp list option" where
  "to_datetime_iso8601 [] = Some []"
| "to_datetime_iso8601 (Str s # cs) =
     (case parse_iso8601 s of
        None \<Rightarrow> None
      | Some t \<Rightarrow> map_option ((#) t) (to_datetime_iso8601 cs))"
| "to_datetime_iso8601 (c # cs) = None"

subsection \<open>Reading a comma-separated value back\<close>

text \<open>
  \<open>s.split(c)\<close> of Python, the inverse of \<^const>\<open>join\<close> on names without the
  separator: it is how the value of the \<open>hourly\<close> and \<open>daily\<close> parameters is
  taken apart again into variable names. It serves to state what a joined value
  contains and is no part of the client.
\<close>

fun split_on :: "char \<Rightarrow> string \<Rightarrow> string list" where
  "split_on c [] = [[]]"
| "split_on c (x # xs) =
     (if x = c then [] # split_on c xs
      else (case split_on c xs of
              [] \<Rightarrow> [[x]]
            | w # ws \<Rightarrow> (x # w) # ws))"

subsection \<open>Concrete requests and responses\<close>

text \<open>
  The request of the scenario in the specification (Berlin, two days of January 2023,
  every keyword argument but \<open>model\<close> and \<open>elevation\<close> at its default), for a given
  variable list, model and elevation.
\<close>

definition berlin_request :: "string list \<Rightarrow> string option \<Rightarrow> real option \<Rightarrow> error + api" where
  "berlin_request vars mdl elev =
     init 52.52 13.41 vars ''2023-01-01'' ''2023-01-02''
       ''auto'' ''celsius'' ''kmh'' ''mm'' ''iso8601'' mdl elev ''land''"

text \<open>A server that answers every request with one body, and one that cannot be reached.\<close>

definition serve :: "payload \<Rightarrow> transport" where
  "serve body url params = Inr body"

definition unreachable :: transport where
  "unreachable url params = Inl ''connection refused''"

definition hourly_only_payload :: payload where
  "hourly_only_payload =
     [(''hourly'', [(''time'', [Str ''2020-01-01T00:00'', Str ''2020-01-01T01:00'']),
                   (''temperature_2m'', [Num 1, Num 2])])]"

definition daily_only_payload :: payload where
  "daily_only_payload =
     [(''daily'', [(''time'', [Str ''2020-01-01'', Str ''2020-01-02'']),
                  (''temperature_2m_max'', [Num 3.5, Num 4])])]"

section \<open>Properties\<close>

lemma select_vars_filter: "select_vars c vs = filter (\<lambda>v. v \<in> c) vs"
  by (induction vs) simp_all

subsection \<open>Catalogs and classification\<close>

lemma card_HOURLY_VARIABLES: "card HOURLY_VARIABLES = 36"
  unfolding HOURLY_VARIABLES_def by code_simp

lemma card_DAILY_VARIABLES: "card DAILY_VARIABLES = 18"
  unfolding DAILY_VARIABLES_def by code_simp

lemma select_vars_subseq: "subseq (select_vars c vs) vs"
  by (simp add: select_vars_filter)

lemma select_vars_set: "set (select_vars c vs) = set vs \<inter> c"
  by (auto simp add: select_vars_filter)

lemma select_vars_empty_iff: "select_vars c vs = [] \<longleftrightarrow> set vs \<inter> c = {}"
  using select_vars_set[of c vs] by auto

lemma init_Inr_fields:
  "init lat lon V sd ed tz tu wu pu tf mdl elev cs = Inr s \<Longrightarrow>
     hourly_vars s = select_vars HOURLY_VARIABLES V \<and>
     daily_vars s = select_vars DAILY_VARIABLES V \<and>
     model s = mdl \<and> elevation s = elev \<and> variables s = V"
  by (auto simp add: init_def Let_def split: if_splits)

lemma init_succeeds:
  "v \<in> set V \<Longrightarrow> v \<in> HOURLY_VARIABLES \<or> v \<in> DAILY_VARIABLES \<Longrightarrow>
     \<exists>s. init lat lon V sd ed tz tu wu pu tf mdl elev cs = Inr s"
  by (auto simp add: init_def Let_def select_vars_empty_iff)

lemma berlin_request_Inr:
  "berlin_request V mdl elev = Inr s \<Longrightarrow>
     hourly_vars s = select_vars HOURLY_VARIABLES V \<and>
     daily_vars s = select_vars DAILY_VARIABLES V \<and>
     model s = mdl \<and> elevation s = elev \<and> variables s = V"
  unfolding berlin_request_def by (rule init_Inr_fields)

lemma temperature_2m_hourly: "''temperature_2m'' \<in> HOURLY_VARIABLES"
  by (simp add: HOURLY_VARIABLES_def)

lemma berlin_temperature: "\<exists>s. berlin_request [''temperature_2m''] mdl elev = Inr s"
  unfolding berlin_request_def
  by (rule init_succeeds[of "''temperature_2m''"]) (simp_all add: temperature_2m_hourly)

text \<open>
  C6, as amended: the hourly catalog holds 36 names and the daily catalog 18. The set
  literal of the source lists 36 pairwise different hourly names.
\<close>

theorem catalog_sizes: "card HOURLY_VARIABLES = 36 \<and> card DAILY_VARIABLES = 18"
  by (simp add: card_HOURLY_VARIABLES card_DAILY_VARIABLES)

text \<open>C6 as stated (35 hourly names and 18 daily names) does not hold.\<close>

theorem hourly_catalog_not_35: "\<not> (card HOURLY_VARIABLES = 35 \<and> card DAILY_VARIABLES = 18)"
  by (simp add: card_HOURLY_VARIABLES)

text \<open>
  C3: for every variable list \<open>V\<close> the two lists computed by the constructor are \<open>V\<close>
  filtered by membership in the hourly and in the daily catalog; each is a subsequence
  of \<open>V\<close>, so the relative order is kept; a name in neither catalog is in neither
  list; and a constructed object holds exactly these lists.
\<close>

theorem classification_partitions:
  "select_vars HOURLY_VARIABLES V = filter (\<lambda>v. v \<in> HOURLY_VARIABLES) V \<and>
   select_vars DAILY_VARIABLES V = filter (\<lambda>v. v \<in> DAILY_VARIABLES) V \<and>
   subseq (select_vars HOURLY_VARIABLES V) V \<and>
   subseq (select_vars DAILY_VARIABLES V) V \<and>
   (\<forall>v. v \<notin> HOURLY_VARIABLES \<and> v \<notin> DAILY_VARIABLES \<longrightarrow>
          v \<notin> set (select_vars HOURLY_VARIABLES V) \<and>
          v \<notin> set (select_vars DAILY_VARIABLES V)) \<and>
   (\<forall>s. init lat lon V sd ed tz tu wu pu tf mdl elev cs = Inr s \<longrightarrow>
          hourly_vars s = select_vars HOURLY_VARIABLES V \<and>
          daily_vars s = select_vars DAILY_VARIABLES V)"
  using init_Inr_fields[of lat lon V sd ed tz tu wu pu tf mdl elev cs]
  by (simp add: select_vars_subseq select_vars_set) (simp add: select_vars_filter)

theorem classification_partitions_witness:
  "\<exists>s. berlin_request [''temperature_2m'', ''bogus'', ''sunrise'', ''weather_code'',
                        ''temperature_2m''] None None = Inr s \<and>
       hourly_vars s = [''temperature_2m'', ''weather_code'', ''temperature_2m''] \<and>
       daily_vars s = [''sunrise'', ''weather_code''] \<and>
       ''bogus'' \<notin> set (hourly_vars s) \<and> ''bogus'' \<notin> set (daily_vars s)"
proof -
  let ?V = "[''temperature_2m'', ''bogus'', ''sunrise'', ''weather_code'', ''temperature_2m'']"
  obtain s where s: "berlin_request ?V None None = Inr s"
    unfolding berlin_request_def
    using init_succeeds[of "''temperature_2m''" ?V] temperature_2m_hourly by fastforce
  have unknown: "''bogus'' \<notin> HOURLY_VARIABLES \<and> ''bogus'' \<notin> DAILY_VARIABLES"
    by (simp add: HOURLY_VARIABLES_def DAILY_VARIABLES_def)
  note c = classification_partitions[of ?V "52.52" "13.41" "''2023-01-01''" "''2023-01-02''"
      "''auto''" "''celsius''" "''kmh''" "''mm''" "''iso8601''" None None "''land''"]
  from c s have hv: "hourly_vars s = filter (\<lambda>v. v \<in> HOURLY_VARIABLES) ?V"
    and dv: "daily_vars s = filter (\<lambda>v. v \<in> DAILY_VARIABLES) ?V"
    unfolding berlin_request_def by auto
  from c unknown s have "''bogus'' \<notin> set (hourly_vars s) \<and> ''bogus'' \<notin> set (daily_vars s)"
    unfolding berlin_request_def by metis
  moreover have "hourly_vars s = [''temperature_2m'', ''weather_code'', ''temperature_2m'']"
    unfolding hv by (simp add: HOURLY_VARIABLES_def)
  moreover have "daily_vars s = [''sunrise'', ''weather_code'']"
    unfolding dv by (simp add: DAILY_VARIABLES_def)
  ultimately show ?thesis using s by blast
qed

text \<open>
  C4: the constructor raises the configuration error exactly when both computed lists
  are empty, and it raises nothing else; a list of names that are all unknown to both
  catalogs fails, and a list with at least one catalogued name yields an object.
\<close>

theorem init_raises_iff_no_valid_variable:
  "((\<exists>e. init lat lon V sd ed tz tu wu pu tf mdl elev cs = Inl e \<and> ConfigurationError e) \<longleftrightarrow>
      select_vars HOURLY_VARIABLES V = [] \<and> select_vars DAILY_VARIABLES V = []) \<and>
   ((\<exists>e. init lat lon V sd ed tz tu wu pu tf mdl elev cs = Inl e) \<longleftrightarrow>
      select_vars HOURLY_VARIABLES V = [] \<and> select_vars DAILY_VARIABLES V = []) \<and>
   ((\<forall>v \<in> set V. v \<notin> HOURLY_VARIABLES \<and> v \<notin> DAILY_VARIABLES) \<longrightarrow>
      init lat lon V sd ed tz tu wu pu tf mdl elev cs = Inl no_valid_variables) \<and>
   ((\<exists>v \<in> set V. v \<in> HOURLY_VARIABLES \<or> v \<in> DAILY_VARIABLES) \<longrightarrow>
      (\<exists>s. init lat lon V sd ed tz tu wu pu tf mdl elev cs = Inr s))"
  by (auto simp add: init_def Let_def ConfigurationError_def select_vars_empty_iff)

theorem init_raises_iff_no_valid_variable_witness:
  "berlin_request [''bogus'', ''temperature''] None None = Inl no_valid_variables \<and>
   (\<exists>s. berlin_request [''bogus'', ''rain''] None None = Inr s)"
proof -
  have "\<forall>v \<in> set [''bogus'', ''temperature'']. v \<notin> HOURLY_VARIABLES \<and> v \<notin> DAILY_VARIABLES"
    by (simp add: HOURLY_VARIABLES_def DAILY_VARIABLES_def)
  moreover have "\<exists>v \<in> set [''bogus'', ''rain'']. v \<in> HOURLY_VARIABLES \<or> v \<in> DAILY_VARIABLES"
    by (simp add: HOURLY_VARIABLES_def)
  ultimately show ?thesis
    unfolding berlin_request_def
    using init_raises_iff_no_valid_variable[of "52.52" "13.41" "[''bogus'', ''temperature'']"
        "''2023-01-01''" "''2023-01-02''" "''auto''" "''celsius''" "''kmh''" "''mm''"
        "''iso8601''" None None "''land''"]
      init_raises_iff_no_valid_variable[of "52.52" "13.41" "[''bogus'', ''rain'']"
        "''2023-01-01''" "''2023-01-02''" "''auto''" "''celsius''" "''kmh''" "''mm''"
        "''iso8601''" None None "''land''"]
    by blast
qed

subsection \<open>Query parameters\<close>

lemma keys_update: "keys (AList.update k v al) = insert k (keys al)"
  by (simp add: keys_def dom_update)

lemma keys_Cons: "keys ((k, v) # al) = insert k (keys al)"
  by (simp add: keys_def)

lemma keys_Nil: "keys [] = {}"
  by (simp add: keys_def)

lemma mem_keys_build_params:
  "k \<in> keys (build_params s) \<longleftrightarrow>
     k \<in> {''latitude'', ''longitude'', ''start_date'', ''end_date'', ''timezone'',
          ''temperature_unit'', ''wind_speed_unit'', ''precipitation_unit'', ''timeformat'',
          ''cell_selection''} \<or>
     k = ''hourly'' \<and> hourly_vars s \<noteq> [] \<or>
     k = ''daily'' \<and> daily_vars s \<noteq> [] \<or>
     k = ''model'' \<and> (\<exists>m. model s = Some m \<and> m \<noteq> []) \<or>
     k = ''elevation'' \<and> elevation s \<noteq> None"
proof -
  define p0 where "p0 = [
            (''latitude'', PFloat (latitude s)),
            (''longitude'', PFloat (longitude s)),
            (''start_date'', PStr (start_date s)),
            (''end_date'', PStr (end_date s)),
            (''timezone'', PStr (timezone s)),
            (''temperature_unit'', PStr (temperature_unit s)),
            (''wind_speed_unit'', PStr (wind_speed_unit s)),
            (''precipitation_unit'', PStr (precipitation_unit s)),
            (''timeformat'', PStr (timeformat s)),
            (''cell_selection'', PStr (cell_selection s))]"
  define p1 where "p1 = (if hourly_vars s \<noteq> []
                    then AList.update ''hourly'' (PStr (join '','' (hourly_vars s))) p0
                    else p0)"
  define p2 where "p2 = (if daily_vars s \<noteq> []
                    then AList.update ''daily'' (PStr (join '','' (daily_vars s))) p1
                    else p1)"
  define p3 where "p3 = (case model s of
                      None \<Rightarrow> p2
                    | Some m \<Rightarrow> if m \<noteq> [] then AList.update ''model'' (PStr m) p2
                               else p2)"
  define p4 where "p4 = (case elevation s of
                      None \<Rightarrow> p3
                    | Some e \<Rightarrow> AList.update ''elevation'' (PFloat e) p3)"
  have bp: "build_params s = p4"
    unfolding build_params_def Let_def p4_def p3_def p2_def p1_def p0_def by (rule refl)
  have k0: "keys p0 = {''latitude'', ''longitude'', ''start_date'', ''end_date'', ''timezone'',
          ''temperature_unit'', ''wind_speed_unit'', ''precipitation_unit'', ''timeformat'',
          ''cell_selection''}"
    unfolding p0_def by (simp only: keys_Cons keys_Nil)
  have k1: "k \<in> keys p1 \<longleftrightarrow> k \<in> keys p0 \<or> k = ''hourly'' \<and> hourly_vars s \<noteq> []"
    unfolding p1_def by (simp only: keys_update insert_iff split: if_split) blast
  have k2: "k \<in> keys p2 \<longleftrightarrow> k \<in> keys p1 \<or> k = ''daily'' \<and> daily_vars s \<noteq> []"
    unfolding p2_def by (simp only: keys_update insert_iff split: if_split) blast
  have k3: "k \<in> keys p3 \<longleftrightarrow> k \<in> keys p2 \<or> k = ''model'' \<and> (\<exists>m. model s = Some m \<and> m \<noteq> [])"
    unfolding p3_def by (cases "model s") (auto simp only: keys_update insert_iff option.case split: if_split)
  have k4: "k \<in> keys p4 \<longleftrightarrow> k \<in> keys p3 \<or> k = ''elevation'' \<and> elevation s \<noteq> None"
    unfolding p4_def by (cases "elevation s") (auto simp only: keys_update insert_iff option.case)
  show ?thesis
    by (simp only: bp k4 k3 k2 k1 k0 disj_assoc)
qed

text \<open>
  C2, as amended: the parameters of every request object hold the ten base keys; they
  hold \<open>hourly\<close> exactly when \<open>hourly_vars\<close> is non-empty, \<open>daily\<close> exactly when
  \<open>daily_vars\<close> is non-empty, \<open>model\<close> exactly when a model was given and is not the
  empty string, and \<open>elevation\<close> exactly when an elevation was given.
\<close>

theorem build_params_keys:
  "{''latitude'', ''longitude'', ''start_date'', ''end_date'', ''timezone'',
    ''temperature_unit'', ''wind_speed_unit'', ''precipitation_unit'', ''timeformat'',
    ''cell_selection''} \<subseteq> keys (build_params s) \<and>
   (''hourly'' \<in> keys (build_params s) \<longleftrightarrow> hourly_vars s \<noteq> []) \<and>
   (''daily'' \<in> keys (build_params s) \<longleftrightarrow> daily_vars s \<noteq> []) \<and>
   (''model'' \<in> keys (build_params s) \<longleftrightarrow> (\<exists>m. model s = Some m \<and> m \<noteq> [])) \<and>
   (''elevation'' \<in> keys (build_params s) \<longleftrightarrow> elevation s \<noteq> None)"
proof -
  have base: "{''latitude'', ''longitude'', ''start_date'', ''end_date'', ''timezone'',
    ''temperature_unit'', ''wind_speed_unit'', ''precipitation_unit'', ''timeformat'',
    ''cell_selection''} \<subseteq> keys (build_params s)"
    by (simp add: mem_keys_build_params)
  have h: "''hourly'' \<in> keys (build_params s) \<longleftrightarrow> hourly_vars s \<noteq> []"
    by (simp add: mem_keys_build_params)
  have d: "''daily'' \<in> keys (build_params s) \<longleftrightarrow> daily_vars s \<noteq> []"
    by (simp add: mem_keys_build_params)
  have m: "''model'' \<in> keys (build_params s) \<longleftrightarrow> (\<exists>m. model s = Some m \<and> m \<noteq> [])"
    by (simp add: mem_keys_build_params)
  have e: "''elevation'' \<in> keys (build_params s) \<longleftrightarrow> elevation s \<noteq> None"
    by (simp add: mem_keys_build_params)
  show ?thesis
    by (intro conjI) (rule base h d m e)+
qed

text \<open>
  C2 as stated fails for a falsy model: the request constructed with the empty string
  as its model has a model, and its parameters have no \<open>model\<close> key.
\<close>

theorem empty_model_is_not_sent:
  "\<not> isl (berlin_request [''temperature_2m''] (Some []) None) \<and>
   model (projr (berlin_request [''temperature_2m''] (Some []) None)) = Some [] \<and>
   ''model'' \<notin> keys (build_params (projr (berlin_request [''temperature_2m''] (Some []) None)))"
proof -
  obtain s where s: "berlin_request [''temperature_2m''] (Some []) None = Inr s"
    using berlin_temperature by blast
  then have m: "model s = Some []"
    using berlin_request_Inr by blast
  have "''model'' \<notin> keys (build_params s)"
    by (simp add: mem_keys_build_params m)
  with s m show ?thesis by simp
qed

lemma map_of_build_params_elevation:
  "map_of (build_params s) ''elevation'' = map_option PFloat (elevation s)"
proof (cases "elevation s")
  case None
  then have "''elevation'' \<notin> keys (build_params s)"
    by (simp add: mem_keys_build_params)
  then show ?thesis
    using None by (simp add: keys_def map_of_eq_None_iff)
next
  case (Some e)
  then show ?thesis
    by (simp add: build_params_def Let_def update_conv')
qed

text \<open>
  C7: a request constructed with the elevation 0 sends \<open>elevation\<close> bound to 0, and a
  request constructed without an elevation sends no \<open>elevation\<close> key.
\<close>

theorem zero_elevation_is_sent:
  "(init lat lon V sd ed tz tu wu pu tf mdl (Some 0) cs = Inr s \<longrightarrow>
      map_of (build_params s) ''elevation'' = Some (PFloat 0)) \<and>
   (init lat lon V sd ed tz tu wu pu tf mdl None cs = Inr s' \<longrightarrow>
      ''elevation'' \<notin> keys (build_params s') \<and> map_of (build_params s') ''elevation'' = None)"
proof (intro conjI impI)
  assume "init lat lon V sd ed tz tu wu pu tf mdl (Some 0) cs = Inr s"
  then have "elevation s = Some 0" using init_Inr_fields by blast
  then show "map_of (build_params s) ''elevation'' = Some (PFloat 0)"
    by (simp add: map_of_build_params_elevation)
next
  assume "init lat lon V sd ed tz tu wu pu tf mdl None cs = Inr s'"
  then have e: "elevation s' = None" using init_Inr_fields by blast
  then show "''elevation'' \<notin> keys (build_params s')"
    by (simp add: mem_keys_build_params)
  from e show "map_of (build_params s') ''elevation'' = None"
    by (simp add: map_of_build_params_elevation)
qed

theorem zero_elevation_is_sent_witness:
  "\<exists>s s'. berlin_request [''temperature_2m''] None (Some 0) = Inr s \<and>
          map_of (build_params s) ''elevation'' = Some (PFloat 0) \<and>
          berlin_request [''temperature_2m''] None None = Inr s' \<and>
          ''elevation'' \<notin> keys (build_params s')"
proof -
  obtain s where s: "berlin_request [''temperature_2m''] None (Some 0) = Inr s"
    using berlin_temperature by blast
  obtain s' where s': "berlin_request [''temperature_2m''] None None = Inr s'"
    using berlin_temperature by blast
  note z = zero_elevation_is_sent[of "52.52" "13.41" "[''temperature_2m'']" "''2023-01-01''"
      "''2023-01-02''" "''auto''" "''celsius''" "''kmh''" "''mm''" "''iso8601''" None "''land''" s s']
  from z s s' show ?thesis
    unfolding berlin_request_def by blast
qed

subsection \<open>Shaping the response\<close>

lemma mem_keys_map_of: "k \<in> keys d \<longleftrightarrow> map_of d k \<noteq> None"
  by (simp add: keys_def map_of_eq_None_iff)

lemma no_data_messages:
  "no_data_fetched \<noteq> no_data_found"
  "ValueError ''All arrays must be of the same length'' \<noteq> no_data_fetched"
  "ValueError ''All arrays must be of the same length'' \<noteq> no_data_found"
  by (simp_all add: no_data_fetched_def no_data_found_def)

lemma section_frame_error:
  "section_frame td sec = Inl e \<Longrightarrow> \<not> DataUnavailableError e"
  using no_data_messages
  by (auto simp add: section_frame_def DataFrame_def DataUnavailableError_def
      no_data_fetched_def no_data_found_def
      split: if_splits option.splits)

lemma add_frame_absent: "map_of data key = None \<Longrightarrow> add_frame td key data dfs = Inr dfs"
  by (simp add: add_frame_def)

lemma add_frame_present:
  "map_of data key = Some sec \<Longrightarrow>
     add_frame td key data dfs =
       (case section_frame td sec of Inl e \<Rightarrow> Inl e | Inr df \<Rightarrow> Inr (AList.update key df dfs))"
  by (simp add: add_frame_def)

lemma add_frame_error:
  "add_frame td key data dfs = Inl e \<Longrightarrow> \<not> DataUnavailableError e"
  using section_frame_error
  by (auto simp add: add_frame_def split: option.splits sum.splits)

lemma add_frame_present_result:
  "map_of data key = Some sec \<Longrightarrow> add_frame td key data dfs = Inr dfs' \<Longrightarrow> dfs' \<noteq> []"
  by (auto simp add: add_frame_def split: sum.splits)

lemma add_frame_grows:
  "add_frame td key data dfs = Inr dfs' \<Longrightarrow> dfs \<noteq> [] \<Longrightarrow> dfs' \<noteq> []"
  by (auto simp add: add_frame_def split: option.splits sum.splits)

lemma to_dataframe_no_payload:
  "fetch http self = None \<Longrightarrow> to_dataframe http td self = Inl no_data_fetched"
  by (simp add: to_dataframe_def)

lemma to_dataframe_no_sections:
  "fetch http self = Some data \<Longrightarrow> map_of data ''hourly'' = None \<Longrightarrow>
     map_of data ''daily'' = None \<Longrightarrow> to_dataframe http td self = Inl no_data_found"
  by (simp add: to_dataframe_def add_frame_absent)

lemma to_dataframe_some_section:
  assumes f: "fetch http self = Some data"
    and k: "map_of data ''hourly'' \<noteq> None \<or> map_of data ''daily'' \<noteq> None"
    and r: "to_dataframe http td self = Inl e"
  shows "\<not> DataUnavailableError e"
proof (cases "add_frame td ''hourly'' data []")
  case (Inl e1)
  with f r have "e = e1" by (simp add: to_dataframe_def)
  with Inl show ?thesis using add_frame_error by blast
next
  case h: (Inr dfs1)
  show ?thesis
  proof (cases "add_frame td ''daily'' data dfs1")
    case (Inl e2)
    with f h r have "e = e2" by (simp add: to_dataframe_def)
    with Inl show ?thesis using add_frame_error by blast
  next
    case d: (Inr dfs)
    have "dfs \<noteq> []"
    proof (cases "map_of data ''hourly''")
      case None
      with k obtain sec where "map_of data ''daily'' = Some sec" by auto
      with d show ?thesis using add_frame_present_result by blast
    next
      case (Some sec)
      with h have "dfs1 \<noteq> []" using add_frame_present_result by blast
      with d show ?thesis using add_frame_grows by blast
    qed
    with f h d r have "e = KeyError ''hourly''"
      by (simp add: to_dataframe_def split: if_splits option.splits)
    then show ?thesis
      by (simp add: DataUnavailableError_def no_data_fetched_def no_data_found_def)
  qed
qed

text \<open>
  C5: \<open>to_dataframe\<close> raises one of its two data-unavailable errors exactly when
  \<open>fetch\<close> gave no payload, or gave a payload with neither an \<open>hourly\<close> nor a
  \<open>daily\<close> key. With a payload that has one of the keys, whatever is raised is not
  a data-unavailable error.
\<close>

theorem data_unavailable_iff:
  "(\<exists>e. to_dataframe http td self = Inl e \<and> DataUnavailableError e) \<longleftrightarrow>
     (fetch http self = None \<or>
      (\<exists>data. fetch http self = Some data \<and> ''hourly'' \<notin> keys data \<and> ''daily'' \<notin> keys data))"
proof (cases "fetch http self")
  case None
  then show ?thesis
    using to_dataframe_no_payload[of http self td] by (simp add: DataUnavailableError_def)
next
  case (Some data)
  show ?thesis
  proof (cases "map_of data ''hourly'' = None \<and> map_of data ''daily'' = None")
    case True
    then show ?thesis
      using Some to_dataframe_no_sections[of http self data td]
      by (simp add: DataUnavailableError_def mem_keys_map_of)
  next
    case False
    then have "map_of data ''hourly'' \<noteq> None \<or> map_of data ''daily'' \<noteq> None" by simp
    then have "\<not> (\<exists>e. to_dataframe http td self = Inl e \<and> DataUnavailableError e)"
      using to_dataframe_some_section[OF Some] by blast
    then show ?thesis
      using Some False by (auto simp add: mem_keys_map_of)
  qed
qed

lemma fetch_serve: "fetch (serve body) self = Some body"
  by (simp add: fetch_def serve_def Let_def)

lemma fetch_unreachable: "fetch unreachable self = None"
  by (simp add: fetch_def unreachable_def Let_def)

theorem data_unavailable_iff_witness:
  "\<forall>self.
     (\<exists>e. to_dataframe unreachable to_datetime_iso8601 self = Inl e \<and> DataUnavailableError e) \<and>
     (\<exists>e. to_dataframe (serve []) to_datetime_iso8601 self = Inl e \<and> DataUnavailableError e) \<and>
     \<not> (\<exists>e. to_dataframe (serve daily_only_payload) to_datetime_iso8601 self = Inl e \<and>
              DataUnavailableError e)"
proof
  fix self :: api
  have a: "fetch unreachable self = None" by (rule fetch_unreachable)
  have b: "fetch (serve []) self = Some [] \<and> ''hourly'' \<notin> keys ([] :: payload) \<and> ''daily'' \<notin> keys ([] :: payload)"
    by (simp add: fetch_serve keys_def)
  have c: "fetch (serve daily_only_payload) self = Some daily_only_payload \<and>
           ''daily'' \<in> keys daily_only_payload"
    by (simp add: fetch_serve keys_def daily_only_payload_def)
  show "(\<exists>e. to_dataframe unreachable to_datetime_iso8601 self = Inl e \<and> DataUnavailableError e) \<and>
     (\<exists>e. to_dataframe (serve []) to_datetime_iso8601 self = Inl e \<and> DataUnavailableError e) \<and>
     \<not> (\<exists>e. to_dataframe (serve daily_only_payload) to_datetime_iso8601 self = Inl e \<and>
              DataUnavailableError e)"
    using a b c
      data_unavailable_iff[of unreachable to_datetime_iso8601 self]
      data_unavailable_iff[of "serve []" to_datetime_iso8601 self]
      data_unavailable_iff[of "serve daily_only_payload" to_datetime_iso8601 self]
    by auto
qed

lemma to_dataframe_hourly_only:
  "fetch http self = Some data \<Longrightarrow> map_of data ''hourly'' = Some sec \<Longrightarrow>
     section_frame td sec = Inr df \<Longrightarrow> map_of data ''daily'' = None \<Longrightarrow>
     to_dataframe http td self = Inr (Single df)"
  by (simp add: to_dataframe_def add_frame_def)

lemma to_dataframe_daily_only:
  "fetch http self = Some data \<Longrightarrow> map_of data ''hourly'' = None \<Longrightarrow>
     map_of data ''daily'' = Some sec \<Longrightarrow> section_frame td sec = Inr df \<Longrightarrow>
     to_dataframe http td self = Inl (KeyError ''hourly'')"
  by (simp add: to_dataframe_def add_frame_def)

lemma to_dataframe_both:
  "fetch http self = Some data \<Longrightarrow> map_of data ''hourly'' = Some hsec \<Longrightarrow>
     section_frame td hsec = Inr hdf \<Longrightarrow> map_of data ''daily'' = Some dsec \<Longrightarrow>
     section_frame td dsec = Inr ddf \<Longrightarrow>
     to_dataframe http td self = Inr (Dict [(''hourly'', hdf), (''daily'', ddf)])"
  by (simp add: to_dataframe_def add_frame_def)

lemma parse_midnight:
  "parse_iso8601 ''2020-01-01T00:00'' =
     Some \<lparr> ts_year = 2020, ts_month = 1, ts_day = 1, ts_hour = 0, ts_minute = 0 \<rparr>"
  by code_simp

lemma parse_one_o_clock:
  "parse_iso8601 ''2020-01-01T01:00'' =
     Some \<lparr> ts_year = 2020, ts_month = 1, ts_day = 1, ts_hour = 1, ts_minute = 0 \<rparr>"
  by code_simp

lemma parse_new_year:
  "parse_iso8601 ''2020-01-01'' =
     Some \<lparr> ts_year = 2020, ts_month = 1, ts_day = 1, ts_hour = 0, ts_minute = 0 \<rparr>"
  by code_simp

lemma parse_second_day:
  "parse_iso8601 ''2020-01-02'' =
     Some \<lparr> ts_year = 2020, ts_month = 1, ts_day = 2, ts_hour = 0, ts_minute = 0 \<rparr>"
  by code_simp

text \<open>
  C8: for the payload with only the \<open>hourly\<close> object of the two times
  \<open>2020-01-01T00:00\<close>, \<open>2020-01-01T01:00\<close> and the temperatures 1.0, 2.0, and for
  the two timestamps that the parser makes of the two times, \<open>to_dataframe\<close> returns
  one table, not a dict: its index is the two timestamps, so it has two rows, and its
  only column is \<open>temperature_2m\<close> with the values 1.0 and 2.0.
\<close>

theorem hourly_round_trip:
  assumes f: "fetch http self =
      Some [(''hourly'', [(''time'', [Str ''2020-01-01T00:00'', Str ''2020-01-01T01:00'']),
                          (''temperature_2m'', [Num 1, Num 2])])]"
    and p: "td [Str ''2020-01-01T00:00'', Str ''2020-01-01T01:00''] = Some [t0, t1]"
  shows "to_dataframe http td self =
      Inr (Single \<lparr> index = [t0, t1], columns = [(''temperature_2m'', [Num 1, Num 2])] \<rparr>)"
proof -
  let ?sec = "[(''time'', [Str ''2020-01-01T00:00'', Str ''2020-01-01T01:00'']),
               (''temperature_2m'', [Num 1, Num 2])]"
  have "section_frame td ?sec =
      Inr \<lparr> index = [t0, t1], columns = [(''temperature_2m'', [Num 1, Num 2])] \<rparr>"
    by (simp add: section_frame_def DataFrame_def p)
  moreover have "map_of [(''hourly'', ?sec)] ''hourly'' = Some ?sec"
    by simp
  moreover have "map_of [(''hourly'', ?sec)] ''daily'' = None"
    by simp
  ultimately show ?thesis
    using f to_dataframe_hourly_only[of http self "[(''hourly'', ?sec)]" ?sec td]
    by simp
qed

theorem hourly_round_trip_witness:
  "\<forall>self. to_dataframe (serve hourly_only_payload) to_datetime_iso8601 self =
      Inr (Single \<lparr> index = [\<lparr> ts_year = 2020, ts_month = 1, ts_day = 1, ts_hour = 0, ts_minute = 0 \<rparr>,
                              \<lparr> ts_year = 2020, ts_month = 1, ts_day = 1, ts_hour = 1, ts_minute = 0 \<rparr>],
                     columns = [(''temperature_2m'', [Num 1, Num 2])] \<rparr>)"
proof
  fix self :: api
  have f: "fetch (serve hourly_only_payload) self =
      Some [(''hourly'', [(''time'', [Str ''2020-01-01T00:00'', Str ''2020-01-01T01:00'']),
                          (''temperature_2m'', [Num 1, Num 2])])]"
    by (simp add: fetch_serve hourly_only_payload_def)
  have p: "to_datetime_iso8601 [Str ''2020-01-01T00:00'', Str ''2020-01-01T01:00''] =
      Some [\<lparr> ts_year = 2020, ts_month = 1, ts_day = 1, ts_hour = 0, ts_minute = 0 \<rparr>,
            \<lparr> ts_year = 2020, ts_month = 1, ts_day = 1, ts_hour = 1, ts_minute = 0 \<rparr>]"
    by (simp add: parse_midnight parse_one_o_clock)
  show "to_dataframe (serve hourly_only_payload) to_datetime_iso8601 self =
      Inr (Single \<lparr> index = [\<lparr> ts_year = 2020, ts_month = 1, ts_day = 1, ts_hour = 0, ts_minute = 0 \<rparr>,
                              \<lparr> ts_year = 2020, ts_month = 1, ts_day = 1, ts_hour = 1, ts_minute = 0 \<rparr>],
                     columns = [(''temperature_2m'', [Num 1, Num 2])] \<rparr>)"
    by (rule hourly_round_trip[of "serve hourly_only_payload" self to_datetime_iso8601, OF f p])
qed

text \<open>
  C1 does not hold of the code: when the payload has a \<open>daily\<close> section and no
  \<open>hourly\<close> section, and the daily table is built, \<open>dfs\<close> has the one key
  \<open>daily\<close>, the last line looks up \<open>hourly\<close>, and a \<open>KeyError\<close> is raised
  instead of the daily table being returned.
\<close>

theorem daily_only_raises_KeyError:
  "fetch http self = Some data \<Longrightarrow> ''hourly'' \<notin> keys data \<Longrightarrow>
     map_of data ''daily'' = Some sec \<Longrightarrow> section_frame td sec = Inr df \<Longrightarrow>
     to_dataframe http td self = Inl (KeyError ''hourly'')"
  by (rule to_dataframe_daily_only) (simp_all add: mem_keys_map_of)

theorem daily_only_raises_KeyError_witness:
  "\<forall>self. to_dataframe (serve daily_only_payload) to_datetime_iso8601 self =
      Inl (KeyError ''hourly'')"
proof
  fix self :: api
  let ?sec = "[(''time'', [Str ''2020-01-01'', Str ''2020-01-02'']),
               (''temperature_2m_max'', [Num 3.5, Num 4])]"
  have f: "fetch (serve daily_only_payload) self = Some daily_only_payload"
    by (rule fetch_serve)
  have k: "''hourly'' \<notin> keys daily_only_payload"
    by (simp add: keys_def daily_only_payload_def)
  have d: "map_of daily_only_payload ''daily'' = Some ?sec"
    by (simp add: daily_only_payload_def)
  have s: "section_frame to_datetime_iso8601 ?sec =
      Inr \<lparr> index = [\<lparr> ts_year = 2020, ts_month = 1, ts_day = 1, ts_hour = 0, ts_minute = 0 \<rparr>,
                      \<lparr> ts_year = 2020, ts_month = 1, ts_day = 2, ts_hour = 0, ts_minute = 0 \<rparr>],
             columns = [(''temperature_2m_max'', [Num 3.5, Num 4])] \<rparr>"
    by (simp add: section_frame_def DataFrame_def parse_new_year parse_second_day)
  show "to_dataframe (serve daily_only_payload) to_datetime_iso8601 self = Inl (KeyError ''hourly'')"
    by (rule daily_only_raises_KeyError[of "serve daily_only_payload" self daily_only_payload ?sec to_datetime_iso8601, OF f k d s])
qed

subsection \<open>Names in both catalogs and repeated names\<close>

lemma split_on_no_sep: "c \<notin> set x \<Longrightarrow> split_on c x = [x]"
  by (induction x) auto

lemma split_on_append_sep: "c \<notin> set x \<Longrightarrow> split_on c (x @ c # rest) = x # split_on c rest"
  by (induction x) auto

lemma split_on_join:
  "xs \<noteq> [] \<Longrightarrow> (\<And>x. x \<in> set xs \<Longrightarrow> c \<notin> set x) \<Longrightarrow> split_on c (join [c] xs) = xs"
proof (induction "[c]" xs rule: join.induct)
  case 1
  then show ?case by simp
next
  case (2 x)
  then show ?case by (simp add: split_on_no_sep)
next
  case (3 x y ys)
  then show ?case by (simp add: split_on_append_sep)
qed

lemma hourly_no_comma: "\<forall>v \<in> HOURLY_VARIABLES. CHR '','' \<notin> set v"
  unfolding HOURLY_VARIABLES_def by code_simp

lemma daily_no_comma: "\<forall>v \<in> DAILY_VARIABLES. CHR '','' \<notin> set v"
  unfolding DAILY_VARIABLES_def by code_simp

lemma split_join_select_vars:
  assumes "\<forall>v \<in> c. CHR '','' \<notin> set v" and "select_vars c V \<noteq> []"
  shows "split_on CHR '','' (join '','' (select_vars c V)) = select_vars c V"
  using assms by (intro split_on_join) (auto simp add: select_vars_set)

lemma catalog_overlap:
  "HOURLY_VARIABLES \<inter> DAILY_VARIABLES =
     {''weather_code'', ''sunshine_duration'', ''et0_fao_evapotranspiration''}"
  unfolding HOURLY_VARIABLES_def DAILY_VARIABLES_def by code_simp

lemma map_of_build_params_vars:
  "map_of (build_params s) ''hourly'' =
     (if hourly_vars s \<noteq> [] then Some (PStr (join '','' (hourly_vars s))) else None) \<and>
   map_of (build_params s) ''daily'' =
     (if daily_vars s \<noteq> [] then Some (PStr (join '','' (daily_vars s))) else None)"
proof -
  define p0 where "p0 = [
            (''latitude'', PFloat (latitude s)),
            (''longitude'', PFloat (longitude s)),
            (''start_date'', PStr (start_date s)),
            (''end_date'', PStr (end_date s)),
            (''timezone'', PStr (timezone s)),
            (''temperature_unit'', PStr (temperature_unit s)),
            (''wind_speed_unit'', PStr (wind_speed_unit s)),
            (''precipitation_unit'', PStr (precipitation_unit s)),
            (''timeformat'', PStr (timeformat s)),
            (''cell_selection'', PStr (cell_selection s))]"
  define p1 where "p1 = (if hourly_vars s \<noteq> []
                    then AList.update ''hourly'' (PStr (join '','' (hourly_vars s))) p0
                    else p0)"
  define p2 where "p2 = (if daily_vars s \<noteq> []
                    then AList.update ''daily'' (PStr (join '','' (daily_vars s))) p1
                    else p1)"
  define p3 where "p3 = (case model s of
                      None \<Rightarrow> p2
                    | Some m \<Rightarrow> if m \<noteq> [] then AList.update ''model'' (PStr m) p2
                               else p2)"
  define p4 where "p4 = (case elevation s of
                      None \<Rightarrow> p3
                    | Some e \<Rightarrow> AList.update ''elevation'' (PFloat e) p3)"
  have bp: "build_params s = p4"
    unfolding build_params_def Let_def p4_def p3_def p2_def p1_def p0_def by (rule refl)
  have h0: "map_of p0 ''hourly'' = None" and d0: "map_of p0 ''daily'' = None"
    unfolding p0_def by simp_all
  have h1: "map_of p1 ''hourly'' =
      (if hourly_vars s \<noteq> [] then Some (PStr (join '','' (hourly_vars s))) else None)"
    and d1: "map_of p1 ''daily'' = None"
    unfolding p1_def by (simp_all add: update_conv' h0 d0)
  have h2: "map_of p2 ''hourly'' = map_of p1 ''hourly''"
    and d2: "map_of p2 ''daily'' =
      (if daily_vars s \<noteq> [] then Some (PStr (join '','' (daily_vars s))) else None)"
    unfolding p2_def by (simp_all add: update_conv' d1)
  have h3: "map_of p3 ''hourly'' = map_of p2 ''hourly''"
    and d3: "map_of p3 ''daily'' = map_of p2 ''daily''"
    unfolding p3_def by (simp_all add: update_conv' split: option.split)
  have h4: "map_of p4 ''hourly'' = map_of p3 ''hourly''"
    and d4: "map_of p4 ''daily'' = map_of p3 ''daily''"
    unfolding p4_def by (simp_all add: update_conv' split: option.split)
  show ?thesis
    by (simp only: bp h4 h3 h2 h1 d4 d3 d2)
qed

lemma count_list_select_vars:
  "count_list (select_vars c V) v = (if v \<in> c then count_list V v else 0)"
  by (induction V) auto

lemma sent_vars:
  assumes "\<forall>v \<in> c. CHR '','' \<notin> set v" and "v \<in> c" and "v \<in> set V"
  shows "select_vars c V \<noteq> [] \<and>
         split_on CHR '','' (join '','' (select_vars c V)) = select_vars c V"
proof -
  from assms(2,3) have "v \<in> set (select_vars c V)" by (simp add: select_vars_set)
  then have ne: "select_vars c V \<noteq> []" by auto
  with assms(1) show ?thesis using split_join_select_vars by blast
qed

lemma rain_hourly: "''rain'' \<in> HOURLY_VARIABLES"
  by (simp add: HOURLY_VARIABLES_def)

lemma weather_code_both: "''weather_code'' \<in> HOURLY_VARIABLES \<and> ''weather_code'' \<in> DAILY_VARIABLES"
  by (simp add: HOURLY_VARIABLES_def DAILY_VARIABLES_def)

text \<open>
  C9: the two catalogs share exactly the names \<open>weather_code\<close>,
  \<open>sunshine_duration\<close> and \<open>et0_fao_evapotranspiration\<close>. A requested name that is
  in both catalogs is in \<open>hourly_vars\<close> and in \<open>daily_vars\<close> of the constructed
  object, the \<open>hourly\<close> and the \<open>daily\<close> parameter are both sent, as the
  comma-joined lists, and the name is one of the comma-separated entries of each.
\<close>

theorem shared_names_sent_twice:
  "HOURLY_VARIABLES \<inter> DAILY_VARIABLES =
     {''weather_code'', ''sunshine_duration'', ''et0_fao_evapotranspiration''} \<and>
   (init lat lon V sd ed tz tu wu pu tf mdl elev cs = Inr s \<and> v \<in> set V \<and>
    v \<in> HOURLY_VARIABLES \<and> v \<in> DAILY_VARIABLES \<longrightarrow>
      v \<in> set (hourly_vars s) \<and> v \<in> set (daily_vars s) \<and>
      map_of (build_params s) ''hourly'' = Some (PStr (join '','' (hourly_vars s))) \<and>
      map_of (build_params s) ''daily'' = Some (PStr (join '','' (daily_vars s))) \<and>
      v \<in> set (split_on CHR '','' (join '','' (hourly_vars s))) \<and>
      v \<in> set (split_on CHR '','' (join '','' (daily_vars s))))"
proof (intro conjI impI)
  show "HOURLY_VARIABLES \<inter> DAILY_VARIABLES =
     {''weather_code'', ''sunshine_duration'', ''et0_fao_evapotranspiration''}"
    by (rule catalog_overlap)
next
  assume a: "init lat lon V sd ed tz tu wu pu tf mdl elev cs = Inr s \<and> v \<in> set V \<and>
    v \<in> HOURLY_VARIABLES \<and> v \<in> DAILY_VARIABLES"
  then have hv: "hourly_vars s = select_vars HOURLY_VARIABLES V"
    and dv: "daily_vars s = select_vars DAILY_VARIABLES V"
    using init_Inr_fields by blast+
  from a have h: "select_vars HOURLY_VARIABLES V \<noteq> [] \<and>
      split_on CHR '','' (join '','' (select_vars HOURLY_VARIABLES V)) = select_vars HOURLY_VARIABLES V"
    using sent_vars[OF hourly_no_comma] by blast
  from a have d: "select_vars DAILY_VARIABLES V \<noteq> [] \<and>
      split_on CHR '','' (join '','' (select_vars DAILY_VARIABLES V)) = select_vars DAILY_VARIABLES V"
    using sent_vars[OF daily_no_comma] by blast
  from a show "v \<in> set (hourly_vars s)" by (simp add: hv select_vars_set)
  from a show "v \<in> set (daily_vars s)" by (simp add: dv select_vars_set)
  from h show "map_of (build_params s) ''hourly'' = Some (PStr (join '','' (hourly_vars s)))"
    by (simp add: map_of_build_params_vars hv)
  from d show "map_of (build_params s) ''daily'' = Some (PStr (join '','' (daily_vars s)))"
    by (simp add: map_of_build_params_vars dv)
  from a h show "v \<in> set (split_on CHR '','' (join '','' (hourly_vars s)))"
    by (simp add: hv select_vars_set)
  from a d show "v \<in> set (split_on CHR '','' (join '','' (daily_vars s)))"
    by (simp add: dv select_vars_set)
qed

theorem shared_names_sent_twice_witness:
  "\<exists>s. berlin_request [''temperature_2m'', ''weather_code''] None None = Inr s \<and>
       map_of (build_params s) ''hourly'' = Some (PStr ''temperature_2m,weather_code'') \<and>
       map_of (build_params s) ''daily'' = Some (PStr ''weather_code'')"
proof -
  let ?V = "[''temperature_2m'', ''weather_code'']"
  obtain s where s: "berlin_request ?V None None = Inr s"
    unfolding berlin_request_def
    using init_succeeds[of "''temperature_2m''" ?V] temperature_2m_hourly by fastforce
  have hv: "hourly_vars s = [''temperature_2m'', ''weather_code'']"
    using berlin_request_Inr[OF s] by (simp add: HOURLY_VARIABLES_def)
  have dv: "daily_vars s = [''weather_code'']"
    using berlin_request_Inr[OF s] by (simp add: DAILY_VARIABLES_def)
  have v: "''weather_code'' \<in> set ?V" by simp
  note t = shared_names_sent_twice[of "52.52" "13.41" ?V "''2023-01-01''" "''2023-01-02''"
      "''auto''" "''celsius''" "''kmh''" "''mm''" "''iso8601''" None None "''land''" s
      "''weather_code''"]
  from t s v weather_code_both
  have "map_of (build_params s) ''hourly'' = Some (PStr (join '','' (hourly_vars s))) \<and>
        map_of (build_params s) ''daily'' = Some (PStr (join '','' (daily_vars s)))"
    unfolding berlin_request_def by blast
  then have "map_of (build_params s) ''hourly'' = Some (PStr ''temperature_2m,weather_code'') \<and>
        map_of (build_params s) ''daily'' = Some (PStr ''weather_code'')"
    by (simp add: hv dv)
  with s show ?thesis by blast
qed

text \<open>
  C10: nothing is deduplicated. A name of the hourly catalog occurs in \<open>hourly_vars\<close>
  as often as in the requested list, and when it was requested the \<open>hourly\<close>
  parameter is the comma-joined \<open>hourly_vars\<close>, in which the name is an entry as
  often as it was requested; likewise for the daily catalog and the \<open>daily\<close>
  parameter.
\<close>

theorem duplicates_are_kept:
  "init lat lon V sd ed tz tu wu pu tf mdl elev cs = Inr s \<longrightarrow>
     (v \<in> HOURLY_VARIABLES \<longrightarrow>
        count_list (hourly_vars s) v = count_list V v \<and>
        (v \<in> set V \<longrightarrow>
           map_of (build_params s) ''hourly'' = Some (PStr (join '','' (hourly_vars s))) \<and>
           count_list (split_on CHR '','' (join '','' (hourly_vars s))) v = count_list V v)) \<and>
     (v \<in> DAILY_VARIABLES \<longrightarrow>
        count_list (daily_vars s) v = count_list V v \<and>
        (v \<in> set V \<longrightarrow>
           map_of (build_params s) ''daily'' = Some (PStr (join '','' (daily_vars s))) \<and>
           count_list (split_on CHR '','' (join '','' (daily_vars s))) v = count_list V v))"
proof (intro impI)
  assume a: "init lat lon V sd ed tz tu wu pu tf mdl elev cs = Inr s"
  then have hv: "hourly_vars s = select_vars HOURLY_VARIABLES V"
    and dv: "daily_vars s = select_vars DAILY_VARIABLES V"
    using init_Inr_fields by blast+
  have h: "count_list (hourly_vars s) v = count_list V v \<and>
        (v \<in> set V \<longrightarrow>
           map_of (build_params s) ''hourly'' = Some (PStr (join '','' (hourly_vars s))) \<and>
           count_list (split_on CHR '','' (join '','' (hourly_vars s))) v = count_list V v)"
    if "v \<in> HOURLY_VARIABLES"
    using that sent_vars[OF hourly_no_comma, of v V]
    by (simp add: hv count_list_select_vars map_of_build_params_vars)
  have d: "count_list (daily_vars s) v = count_list V v \<and>
        (v \<in> set V \<longrightarrow>
           map_of (build_params s) ''daily'' = Some (PStr (join '','' (daily_vars s))) \<and>
           count_list (split_on CHR '','' (join '','' (daily_vars s))) v = count_list V v)"
    if "v \<in> DAILY_VARIABLES"
    using that sent_vars[OF daily_no_comma, of v V]
    by (simp add: dv count_list_select_vars map_of_build_params_vars)
  from h d show "(v \<in> HOURLY_VARIABLES \<longrightarrow>
        count_list (hourly_vars s) v = count_list V v \<and>
        (v \<in> set V \<longrightarrow>
           map_of (build_params s) ''hourly'' = Some (PStr (join '','' (hourly_vars s))) \<and>
           count_list (split_on CHR '','' (join '','' (hourly_vars s))) v = count_list V v)) \<and>
     (v \<in> DAILY_VARIABLES \<longrightarrow>
        count_list (daily_vars s) v = count_list V v \<and>
        (v \<in> set V \<longrightarrow>
           map_of (build_params s) ''daily'' = Some (PStr (join '','' (daily_vars s))) \<and>
           count_list (split_on CHR '','' (join '','' (daily_vars s))) v = count_list V v))"
    by blast
qed

theorem duplicates_are_kept_witness:
  "\<exists>s. berlin_request [''rain'', ''sunrise'', ''rain'', ''rain''] None None = Inr s \<and>
       count_list (hourly_vars s) ''rain'' = 3 \<and>
       map_of (build_params s) ''hourly'' = Some (PStr ''rain,rain,rain'') \<and>
       count_list (split_on CHR '','' ''rain,rain,rain'') ''rain'' = 3"
proof -
  let ?V = "[''rain'', ''sunrise'', ''rain'', ''rain'']"
  obtain s where s: "berlin_request ?V None None = Inr s"
    unfolding berlin_request_def
    using init_succeeds[of "''rain''" ?V] rain_hourly by fastforce
  have hv: "hourly_vars s = [''rain'', ''rain'', ''rain'']"
    using berlin_request_Inr[OF s] by (simp add: HOURLY_VARIABLES_def)
  have j: "join '','' [''rain'', ''rain'', ''rain''] = ''rain,rain,rain''"
    by simp
  have k: "count_list ?V ''rain'' = 3" by simp
  have v: "''rain'' \<in> set ?V" by simp
  note t = duplicates_are_kept[of "52.52" "13.41" ?V "''2023-01-01''" "''2023-01-02''"
      "''auto''" "''celsius''" "''kmh''" "''mm''" "''iso8601''" None None "''land''" s "''rain''"]
  from t s v rain_hourly
  have "count_list (hourly_vars s) ''rain'' = count_list ?V ''rain'' \<and>
        map_of (build_params s) ''hourly'' = Some (PStr (join '','' (hourly_vars s))) \<and>
        count_list (split_on CHR '','' (join '','' (hourly_vars s))) ''rain'' = count_list ?V ''rain''"
    unfolding berlin_request_def by blast
  then have "count_list (hourly_vars s) ''rain'' = 3 \<and>
        map_of (build_params s) ''hourly'' = Some (PStr ''rain,rain,rain'') \<and>
        count_list (split_on CHR '','' ''rain,rain,rain'') ''rain'' = 3"
    unfolding hv j k by simp
  with s show ?thesis by blast
qed

end
